theory Spec2Isabelle
  imports Main "HOL-Library.Product_Lexorder"
begin

section \<open>DateIndex: \<^verbatim>\<open>synchronize_ndvi_to_lst.py\<close>\<close>

subsection \<open>Calendar dates\<close>

text \<open>
  A \<^verbatim>\<open>datetime\<close> produced by \<^verbatim>\<open>strptime(s, "%Y-%m-%d")\<close> carries a year, a month and a
  day and the time 00:00:00. Subtracting two of them gives a \<^verbatim>\<open>timedelta\<close> of whole days,
  the difference of their proleptic Gregorian ordinals.
\<close>

type_synonym date = "nat \<times> nat \<times> nat"

definition is_leap :: "nat \<Rightarrow> bool" where
  "is_leap y = (y mod 4 = 0 \<and> (y mod 100 \<noteq> 0 \<or> y mod 400 = 0))"

definition days_in_month :: "nat \<Rightarrow> nat \<Rightarrow> nat" where
  "days_in_month y m =
     (if m = 2 then (if is_leap y then 29 else 28)
      else if m = 4 \<or> m = 6 \<or> m = 9 \<or> m = 11 then 30 else 31)"

definition days_before_year :: "nat \<Rightarrow> nat" where
  "days_before_year y = (y - 1) * 365 + (y - 1) div 4 - (y - 1) div 100 + (y - 1) div 400"

definition days_before_month :: "nat \<Rightarrow> nat \<Rightarrow> nat" where
  "days_before_month y m = sum_list (map (days_in_month y) [1..<m])"

fun toordinal :: "date \<Rightarrow> int" where
  "toordinal (y, m, d) = int (days_before_year y + days_before_month y m + d)"

text \<open>\<^verbatim>\<open>abs(date - target_date)\<close>, compared as a number of days.\<close>

definition abs_diff :: "date \<Rightarrow> date \<Rightarrow> int" where
  "abs_diff d target = \<bar>toordinal d - toordinal target\<bar>"

subsection \<open>Dates in file names\<close>

definition is_digit :: "char \<Rightarrow> bool" where
  "is_digit c = (48 \<le> (of_char c :: nat) \<and> (of_char c :: nat) \<le> 57)"

definition digits_val :: "string \<Rightarrow> nat" where
  "digits_val s = foldl (\<lambda>n c. 10 * n + ((of_char c :: nat) - 48)) 0 s"

text \<open>The regular expression \<^verbatim>\<open>\d{4}-\d{2}-\d{2}\<close> anchored at the start of a string.\<close>

definition date_token :: "string \<Rightarrow> bool" where
  "date_token s =
     (length s = 10 \<and> list_all is_digit (take 4 s) \<and> s ! 4 = CHR ''-'' \<and>
      list_all is_digit (take 2 (drop 5 s)) \<and> s ! 7 = CHR ''-'' \<and>
      list_all is_digit (drop 8 s))"

text \<open>\<^verbatim>\<open>date_pattern.search(base)\<close>: the leftmost match, \<^verbatim>\<open>group(1)\<close> of it.\<close>

fun date_pattern_search :: "string \<Rightarrow> string option" where
  "date_pattern_search [] = None"
| "date_pattern_search (c # cs) =
     (if date_token (take 10 (c # cs)) then Some (take 10 (c # cs))
      else date_pattern_search cs)"

text \<open>
  \<^verbatim>\<open>datetime.strptime(tok, "%Y-%m-%d")\<close> on a matched token; \<open>None\<close> is the
  \<^verbatim>\<open>ValueError\<close> of a year 0, a month outside 1..12 or a day the month does not have.
\<close>

definition strptime :: "string \<Rightarrow> date option" where
  "strptime tok =
     (let y = digits_val (take 4 tok); m = digits_val (take 2 (drop 5 tok));
          d = digits_val (drop 8 tok)
      in if 1 \<le> y \<and> 1 \<le> m \<and> m \<le> 12 \<and> 1 \<le> d \<and> d \<le> days_in_month y m
         then Some (y, m, d) else None)"

definition basename :: "string \<Rightarrow> string" where
  "basename p = rev (takeWhile (\<lambda>c. c \<noteq> CHR ''/'') (rev p))"

text \<open>
  The date of one scanned file: no match of the pattern and a \<^verbatim>\<open>ValueError\<close> (which the
  source reports with a warning) both leave the file out of the mapping.
\<close>

definition file_date :: "string \<Rightarrow> date option" where
  "file_date file_path =
     (case date_pattern_search (basename file_path) of
        None \<Rightarrow> None
      | Some tok \<Rightarrow> strptime tok)"

subsection \<open>The date-to-path mapping\<close>

text \<open>
  A Python \<^verbatim>\<open>dict\<close> iterates in insertion order, and the order decides what \<^verbatim>\<open>min\<close>
  returns, so the mapping is an association list with one entry per key, in the order the
  keys were first inserted. \<^verbatim>\<open>d[k] = v\<close> on a key already present replaces the value and
  leaves the key at its position.
\<close>

type_synonym date_map = "(date \<times> string) list"

fun dict_set :: "'k \<Rightarrow> 'v \<Rightarrow> ('k \<times> 'v) list \<Rightarrow> ('k \<times> 'v) list" where
  "dict_set k v [] = [(k, v)]"
| "dict_set k v ((k', v') # m) =
     (if k' = k then (k', v) # m else (k', v') # dict_set k v m)"

definition dict_keys :: "('k \<times> 'v) list \<Rightarrow> 'k list" where
  "dict_keys m = map fst m"

text \<open>
  \<^verbatim>\<open>get_image_date_map\<close>, from the list \<^verbatim>\<open>glob\<close> returned (in the order it returned it).
\<close>

fun scan_files :: "date_map \<Rightarrow> string list \<Rightarrow> date_map" where
  "scan_files date_map [] = date_map"
| "scan_files date_map (file_path # rest) =
     (case file_date file_path of
        Some file_date' \<Rightarrow> scan_files (dict_set file_date' file_path date_map) rest
      | None \<Rightarrow> scan_files date_map rest)"

definition get_image_date_map :: "string list \<Rightarrow> date_map" where
  "get_image_date_map tif_files = scan_files [] tif_files"

subsection \<open>Nearest date\<close>

text \<open>
  Python's \<^verbatim>\<open>min(iterable, key=f)\<close>: the running best is replaced only by an item whose
  key is strictly smaller, so the first of several minimal items is returned.
\<close>

fun py_min :: "('a \<Rightarrow> 'b::linorder) \<Rightarrow> 'a \<Rightarrow> 'a list \<Rightarrow> 'a" where
  "py_min key best [] = best"
| "py_min key best (x # xs) = py_min key (if key x < key best then x else best) xs"

definition find_nearest_image :: "date \<Rightarrow> date_map \<Rightarrow> string option" where
  "find_nearest_image target_date source_map =
     (case dict_keys source_map of
        [] \<Rightarrow> None
      | k # ks \<Rightarrow> map_of source_map (py_min (\<lambda>date. abs_diff date target_date) k ks))"

text \<open>
  The loop of \<^verbatim>\<open>main\<close> over the target dates: a date with no nearest image (\<open>None\<close>, or
  a path that is falsy) is reported and the loop goes on; otherwise the image is copied
  under the target date. \<^verbatim>\<open>main\<close> returns before the loop when either mapping is empty.
\<close>

datatype sync_action = Copied date string | NoNearest date

definition sync_one :: "date_map \<Rightarrow> date \<Rightarrow> sync_action" where
  "sync_one ndvi_date_map lst_date =
     (case find_nearest_image lst_date ndvi_date_map of
        None \<Rightarrow> NoNearest lst_date
      | Some p \<Rightarrow> if p = [] then NoNearest lst_date else Copied lst_date p)"

datatype sync_result = NoLstDates | NoNdviDates | Synchronized "sync_action list"

definition sync_main :: "string list \<Rightarrow> string list \<Rightarrow> sync_result" where
  "sync_main ndvi_files lst_files =
     (let lst_date_map = get_image_date_map lst_files;
          ndvi_date_map = get_image_date_map ndvi_files
      in if lst_date_map = [] then NoLstDates
         else if ndvi_date_map = [] then NoNdviDates
         else Synchronized (map (sync_one ndvi_date_map) (sort (dict_keys lst_date_map))))"

text \<open>
  The path a last-seen-wins scan keeps for a date: the last file, in scan order, whose
  name carries that date.
\<close>

definition last_seen :: "date \<Rightarrow> string list \<Rightarrow> string option" where
  "last_seen d tif_files =
     (case rev (filter (\<lambda>f. file_date f = Some d) tif_files) of
        [] \<Rightarrow> None
      | f # _ \<Rightarrow> Some f)"

section \<open>Rasters\<close>

text \<open>
  A pixel of a floating-point raster is a number or NaN. The type \<open>'a\<close> stands for the
  ordered set of the non-NaN values of the pixel type; every comparison with NaN is false.
\<close>

datatype 'a pixel = NaN | Val 'a

fun px_less :: "'a::linorder pixel \<Rightarrow> 'a pixel \<Rightarrow> bool" where
  "px_less (Val x) (Val y) = (x < y)"
| "px_less _ _ = False"

text \<open>
  What \<^verbatim>\<open>rasterio\<close> reads from a GeoTIFF: the grid (\<open>crs\<close>, \<open>transform\<close>, \<open>width\<close>,
  \<open>height\<close>), the band count, the pixel type, the no-data value and the bands, each
  band in row-major order. The type \<open>'t\<close> is that of affine transforms, compared with
  \<open>=\<close>. A file whose writer stopped early holds fewer bands than \<open>count\<close>.
\<close>

record ('t, 'a) raster =
  crs :: "string option"
  transform :: 't
  width :: nat
  height :: nat
  count :: nat
  dtype :: string
  nodata :: "'a pixel option"
  bands :: "'a pixel list list"

section \<open>ValueRangeFilter: \<^verbatim>\<open>filter_lst_range.py\<close>\<close>

text \<open>\<^verbatim>\<open>mask = (band_data < lower_bound) | (band_data > upper_bound)\<close>, for one pixel.\<close>

definition mask :: "'a::linorder pixel \<Rightarrow> 'a pixel \<Rightarrow> 'a pixel \<Rightarrow> bool" where
  "mask lower_bound upper_bound v = (px_less v lower_bound \<or> px_less upper_bound v)"

text \<open>\<^verbatim>\<open>np.sum(mask)\<close> and \<^verbatim>\<open>band_data[mask] = np.nan\<close>.\<close>

definition pixels_to_change :: "'a::linorder pixel \<Rightarrow> 'a pixel \<Rightarrow> 'a pixel list \<Rightarrow> nat" where
  "pixels_to_change lower_bound upper_bound band_data =
     length (filter (mask lower_bound upper_bound) band_data)"

definition set_nan :: "'a::linorder pixel \<Rightarrow> 'a pixel \<Rightarrow> 'a pixel list \<Rightarrow> 'a pixel list" where
  "set_nan lower_bound upper_bound band_data =
     map (\<lambda>v. if mask lower_bound upper_bound v then NaN else v) band_data"

text \<open>
  The loop over the bands: a band is written back only when some pixel of it is masked,
  and only then does it add to \<^verbatim>\<open>total_changed\<close>. The result is the bands of the file
  after the loop and \<^verbatim>\<open>total_changed\<close>, starting from the value given.
\<close>

fun filter_bands ::
  "'a::linorder pixel \<Rightarrow> 'a pixel \<Rightarrow> nat \<Rightarrow> 'a pixel list list \<Rightarrow> 'a pixel list list \<times> nat" where
  "filter_bands lower_bound upper_bound total_changed [] = ([], total_changed)"
| "filter_bands lower_bound upper_bound total_changed (band_data # rest) =
     (if pixels_to_change lower_bound upper_bound band_data > 0
      then apfst (Cons (set_nan lower_bound upper_bound band_data))
             (filter_bands lower_bound upper_bound
                (total_changed + pixels_to_change lower_bound upper_bound band_data) rest)
      else apfst (Cons band_data) (filter_bands lower_bound upper_bound total_changed rest))"

text \<open>
  \<^verbatim>\<open>filter_image_by_range\<close> on the opened file: the file after the call and the number of
  replaced pixels the call reports. The no-data value is set to NaN only when some pixel
  changed and it is not NaN already.
\<close>

definition filter_image_by_range ::
  "('t, 'a::linorder) raster \<Rightarrow> 'a pixel \<Rightarrow> 'a pixel \<Rightarrow> ('t, 'a) raster \<times> nat" where
  "filter_image_by_range src lower_bound upper_bound =
     (let nodata_val = nodata src;
          bands' = fst (filter_bands lower_bound upper_bound 0 (bands src));
          total_changed = snd (filter_bands lower_bound upper_bound 0 (bands src));
          src' = src\<lparr>bands := bands'\<rparr>
      in if total_changed > 0
         then (if nodata_val = Some NaN then src' else src'\<lparr>nodata := Some NaN\<rparr>, total_changed)
         else (src', total_changed))"

(*DEFS-END*)

section \<open>Properties of the date index\<close>

lemma map_of_dict_set: "map_of (dict_set k v m) = (map_of m)(k \<mapsto> v)"
  by (induction m) (auto simp: fun_eq_iff)

lemma keys_dict_set:
  "map fst (dict_set k v m) = (if k \<in> set (map fst m) then map fst m else map fst m @ [k])"
  by (induction m) (auto simp: rev_image_eqI)

lemma distinct_dict_set: "distinct (map fst m) \<Longrightarrow> distinct (map fst (dict_set k v m))"
  by (simp add: keys_dict_set)

lemma distinct_scan_files: "distinct (map fst m) \<Longrightarrow> distinct (map fst (scan_files m fs))"
  by (induction fs arbitrary: m) (auto simp: distinct_dict_set split: option.splits)

lemma map_of_scan_files:
  "map_of (scan_files m fs) d = (case last_seen d fs of None \<Rightarrow> map_of m d | Some f \<Rightarrow> Some f)"
proof (induction fs arbitrary: m)
  case Nil
  then show ?case by (simp add: last_seen_def)
next
  case (Cons f fs)
  show ?case
  proof (cases "file_date f")
    case None
    then show ?thesis using Cons.IH [of m] by (simp add: last_seen_def)
  next
    case (Some d')
    then show ?thesis using Cons.IH [of "dict_set d' f m"]
      by (auto simp: last_seen_def map_of_dict_set split: list.splits option.splits)
  qed
qed

text \<open>
  C10. Whatever list of files the scan returns, the mapping has no date twice, and the
  path kept for a date is that of the last file in scan order whose name carries that date.
\<close>

theorem date_map_last_seen_wins: "distinct (dict_keys (get_image_date_map tif_files)) \<and>
   ((d, p) \<in> set (get_image_date_map tif_files) \<longleftrightarrow> last_seen d tif_files = Some p)"
proof -
  have dist: "distinct (map fst (get_image_date_map tif_files))"
    unfolding get_image_date_map_def by (rule distinct_scan_files) simp
  have look: "map_of (get_image_date_map tif_files) d = last_seen d tif_files"
    unfolding get_image_date_map_def by (simp add: map_of_scan_files split: option.splits)
  have mem: "(d, p) \<in> set (get_image_date_map tif_files) \<longleftrightarrow>
      map_of (get_image_date_map tif_files) d = Some p"
    using map_of_eq_Some_iff [OF dist, of d p] by blast
  show ?thesis
  proof (intro conjI)
    show "distinct (dict_keys (get_image_date_map tif_files))"
      using dist by (simp only: dict_keys_def)
    show "(d, p) \<in> set (get_image_date_map tif_files) \<longleftrightarrow> last_seen d tif_files = Some p"
      by (simp only: mem look)
  qed
qed

lemma py_min_in: "py_min key b xs \<in> set (b # xs)"
  by (induction xs arbitrary: b) (auto split: if_splits)

lemma py_min_le_best: "key (py_min key b xs) \<le> key b"
proof (induction xs arbitrary: b)
  case Nil show ?case by simp
next
  case (Cons x xs)
  show ?case using Cons [of "if key x < key b then x else b"] by (auto split: if_splits)
qed

lemma py_min_le: "x \<in> set xs \<Longrightarrow> key (py_min key b xs) \<le> key x"
proof (induction xs arbitrary: b)
  case Nil then show ?case by simp
next
  case (Cons y ys)
  show ?case
  proof (cases "x = y")
    case True
    have "key (py_min key (if key y < key b then y else b) ys) \<le> key (if key y < key b then y else b)"
      by (rule py_min_le_best)
    with True show ?thesis by (auto split: if_splits)
  next
    case False
    with Cons show ?thesis by auto
  qed
qed

lemma py_min_keep: "\<forall>x\<in>set xs. key b \<le> key x \<Longrightarrow> py_min key b xs = b"
  by (induction xs) auto

lemma py_min_first:
  "key d < key b \<Longrightarrow> \<forall>x\<in>set pre. key d < key x \<Longrightarrow> \<forall>x\<in>set post. key d \<le> key x \<Longrightarrow>
   py_min key b (pre @ d # post) = d"
proof (induction pre arbitrary: b)
  case Nil
  then show ?case by (simp add: py_min_keep)
next
  case (Cons x pre)
  then show ?case by auto
qed


text \<open>
  C2. On a non-empty mapping \<^verbatim>\<open>find_nearest_image\<close> returns the path stored under a date
  whose distance in days to the target is the least of all dates of the mapping. On the
  empty mapping it returns \<open>None\<close>, which the loop of the caller turns into a skipped date.
\<close>

theorem nearest_minimizes:
  "find_nearest_image t [] = None \<and> sync_one [] t = NoNearest t \<and>
   (source_map \<noteq> [] \<longrightarrow>
      (\<exists>d p. find_nearest_image t source_map = Some p \<and> (d, p) \<in> set source_map \<and>
         (\<forall>d' \<in> set (dict_keys source_map). abs_diff d t \<le> abs_diff d' t)))"
proof -
  have e: "find_nearest_image t [] = None"
    by (simp add: find_nearest_image_def dict_keys_def)
  have s: "sync_one [] t = NoNearest t"
    by (simp add: sync_one_def e)
  have m: "\<exists>d p. find_nearest_image t source_map = Some p \<and> (d, p) \<in> set source_map \<and>
         (\<forall>d' \<in> set (dict_keys source_map). abs_diff d t \<le> abs_diff d' t)"
    if ne: "source_map \<noteq> []"
  proof -
    from ne obtain k v rest where sm: "source_map = (k, v) # rest"
      by (cases source_map) auto
    define key where "key = (\<lambda>date. abs_diff date t)"
    define d where "d = py_min key k (map fst rest)"
    have din: "d \<in> set (map fst source_map)"
      using py_min_in [of key k "map fst rest"] by (simp add: d_def sm)
    then obtain p where p: "map_of source_map d = Some p"
      by (metis map_of_eq_None_iff not_Some_eq set_map)
    have fn: "find_nearest_image t source_map = Some p"
      using p by (simp add: find_nearest_image_def dict_keys_def sm d_def key_def)
    have mem: "(d, p) \<in> set source_map"
      using p by (rule map_of_SomeD)
    have least: "key d \<le> key d'" if "d' \<in> set (dict_keys source_map)" for d'
    proof (cases "d' = k")
      case True
      then show ?thesis using py_min_le_best [of key k "map fst rest"] by (simp add: d_def)
    next
      case False
      with that have "d' \<in> set (map fst rest)" by (simp add: dict_keys_def sm)
      then show ?thesis unfolding d_def by (rule py_min_le)
    qed
    have "find_nearest_image t source_map = Some p \<and> (d, p) \<in> set source_map \<and>
         (\<forall>d' \<in> set (dict_keys source_map). abs_diff d t \<le> abs_diff d' t)"
      using fn mem least by (simp add: key_def)
    then show ?thesis by blast
  qed
  from e s m show ?thesis by blast
qed

theorem nearest_minimizes_witness:
  "[((2022, 1, 1), ''ndvi_2022-01-01.tif''), ((2022, 1, 10), ''ndvi_2022-01-10.tif''),
     ((2022, 1, 20), ''ndvi_2022-01-20.tif'')] \<noteq> [] \<and>
   (\<exists>d p. find_nearest_image (2022, 1, 14)
       [((2022, 1, 1), ''ndvi_2022-01-01.tif''), ((2022, 1, 10), ''ndvi_2022-01-10.tif''),
        ((2022, 1, 20), ''ndvi_2022-01-20.tif'')] = Some p \<and>
     (d, p) \<in> set [((2022, 1, 1), ''ndvi_2022-01-01.tif''), ((2022, 1, 10), ''ndvi_2022-01-10.tif''),
        ((2022, 1, 20), ''ndvi_2022-01-20.tif'')] \<and>
     (\<forall>d' \<in> set (dict_keys [((2022, 1, 1), ''ndvi_2022-01-01.tif''), ((2022, 1, 10), ''ndvi_2022-01-10.tif''),
        ((2022, 1, 20), ''ndvi_2022-01-20.tif'')]). abs_diff d (2022, 1, 14) \<le> abs_diff d' (2022, 1, 14)))"
  using nearest_minimizes [of "(2022, 1, 14)"
      "[((2022, 1, 1), ''ndvi_2022-01-01.tif''), ((2022, 1, 10), ''ndvi_2022-01-10.tif''),
        ((2022, 1, 20), ''ndvi_2022-01-20.tif'')]"]
  by simp

lemma file_date_20: "file_date ''ndvi_2022-01-20.tif'' = Some (2022, 1, 20)"
  by (simp add: file_date_def basename_def date_token_def is_digit_def strptime_def
      digits_val_def days_in_month_def is_leap_def)

lemma file_date_10: "file_date ''ndvi_2022-01-10.tif'' = Some (2022, 1, 10)"
  by (simp add: file_date_def basename_def date_token_def is_digit_def strptime_def
      digits_val_def days_in_month_def is_leap_def)

lemma toordinal_jan_2022: "toordinal (2022, 1, d) = 738155 + int d"
  by (simp add: days_before_year_def days_before_month_def)

text \<open>
  C3, as stated, fails: with 2022-01-10 and 2022-01-20 both five days from 2022-01-15, the
  later date wins when its file was scanned first, and the earlier one when the scan order
  is reversed.
\<close>

theorem tie_earliest_counterexample:
  "find_nearest_image (2022, 1, 15)
     (get_image_date_map [''ndvi_2022-01-20.tif'', ''ndvi_2022-01-10.tif'']) = Some ''ndvi_2022-01-20.tif'' \<and>
   abs_diff (2022, 1, 10) (2022, 1, 15) = abs_diff (2022, 1, 20) (2022, 1, 15) \<and>
   find_nearest_image (2022, 1, 15)
     (get_image_date_map [''ndvi_2022-01-10.tif'', ''ndvi_2022-01-20.tif'']) = Some ''ndvi_2022-01-10.tif''"
  by (simp add: get_image_date_map_def file_date_20 file_date_10 find_nearest_image_def
      dict_keys_def abs_diff_def toordinal_jan_2022)

text \<open>
  C3, amended. Among the dates at the least distance from the target, the one inserted
  first into the mapping wins: an entry strictly nearer than every entry before it and at
  least as near as every entry after it is the one returned.
\<close>

theorem tie_first_inserted:
  assumes "source_map = pre @ (d, p) # post"
    and "\<forall>d' \<in> set (dict_keys pre). abs_diff d t < abs_diff d' t"
    and "\<forall>d' \<in> set (dict_keys post). abs_diff d t \<le> abs_diff d' t"
  shows "find_nearest_image t source_map = Some p"
proof -
  define key where "key = (\<lambda>date. abs_diff date t)"
  have notin: "d \<notin> fst ` set pre"
    using assms(2) by (auto simp: dict_keys_def)
  have look: "map_of source_map d = Some p"
    using notin by (simp add: assms(1) map_add_Some_iff map_of_eq_None_iff)
  have pm: "\<exists>k ks. map fst source_map = k # ks \<and> py_min key k ks = d"
  proof (cases pre)
    case Nil
    then show ?thesis using assms(3)
      by (simp add: assms(1) dict_keys_def key_def py_min_keep)
  next
    case (Cons a pre')
    have "py_min key (fst a) (map fst pre' @ d # map fst post) = d"
      using assms(2,3) unfolding Cons key_def dict_keys_def
      by (intro py_min_first) auto
    then show ?thesis by (simp add: assms(1) Cons)
  qed
  then show ?thesis
    using look by (auto simp: find_nearest_image_def dict_keys_def key_def)
qed

theorem tie_first_inserted_witness:
  "find_nearest_image (2022, 1, 15)
     ([((2022, 1, 1), ''a.tif'')] @ ((2022, 1, 20), ''c.tif'') # [((2022, 1, 10), ''b.tif'')]) = Some ''c.tif''"
proof -
  have 1: "\<forall>d' \<in> set (dict_keys [((2022, 1, 1), ''a.tif'')]). abs_diff (2022, 1, 20) (2022, 1, 15) < abs_diff d' (2022, 1, 15)"
    by (simp add: dict_keys_def abs_diff_def toordinal_jan_2022)
  have 2: "\<forall>d' \<in> set (dict_keys [((2022, 1, 10), ''b.tif'')]). abs_diff (2022, 1, 20) (2022, 1, 15) \<le> abs_diff d' (2022, 1, 15)"
    by (simp add: dict_keys_def abs_diff_def toordinal_jan_2022)
  show ?thesis by (rule tie_first_inserted [OF refl 1 2])
qed

end
